theory Spec2Isabelle
  imports Complex_Main "HOL-Library.Monad_Syntax"
begin

section \<open>Monte Carlo variance reduction: the notebooks' code over the reals\<close>

text \<open>
  The Python snippets of the lecture notes compute with numpy double-precision floats.
  They are modelled here over the real numbers: rounding is not represented, except in the
  double-precision model of the moment normalizer further down. A float that
  is not finite (nan or an infinity, which numpy produces with a RuntimeWarning instead of
  raising) is the value \<open>None\<close> of \<open>real option\<close>; once a scalar is not finite, every
  value computed from it by the arithmetic used below is not finite either. A Python
  exception is a value of \<open>py_error\<close>.
\<close>

subsection \<open>numpy primitives\<close>

datatype py_error = ValueError | ZeroDivisionError

text \<open>
  The process-wide generator behind \<open>np.random.*\<close>. Its hidden state is represented by the
  sequence of variates it is going to return: element \<open>k\<close> is the value of the draw after
  \<open>k\<close> earlier ones. A snippet that asks for uniform variates reads them as Uniform[0,1)
  values, one that asks for normal variates as standard Normal values; no snippet asks
  for both. Sizes are natural numbers (numpy rejects a negative size).
\<close>

type_synonym rng = "nat \<Rightarrow> real"

definition draw :: "nat \<Rightarrow> rng \<Rightarrow> real list \<times> rng" where
  "draw n s = (map s [0..<n], (\<lambda>k. s (k + n)))"

definition np_random_random :: "nat \<Rightarrow> rng \<Rightarrow> real list \<times> rng" where
  "np_random_random n s = draw n s"

definition np_random_rand :: "nat \<Rightarrow> rng \<Rightarrow> real list \<times> rng" where
  "np_random_rand n s = draw n s"

definition np_random_uniform :: "real \<Rightarrow> real \<Rightarrow> nat \<Rightarrow> rng \<Rightarrow> real list \<times> rng" where
  "np_random_uniform low high n s =
     (let (u, s1) = draw n s in (map (\<lambda>ui. low + (high - low) * ui) u, s1))"

definition np_random_normal :: "nat \<Rightarrow> rng \<Rightarrow> real list \<times> rng" where
  \<comment> \<open>\<open>np.random.normal(0, 1, n)\<close>\<close>
  "np_random_normal n s = draw n s"

definition np_random_randn :: "nat \<Rightarrow> rng \<Rightarrow> real list \<times> rng" where
  "np_random_randn n s = draw n s"

definition np_div :: "real \<Rightarrow> real \<Rightarrow> real option" where
  \<comment> \<open>division of numpy scalars: by zero it gives nan or an infinity, and does not raise\<close>
  "np_div a b = (if b = 0 then None else Some (a / b))"

definition np_sqrt :: "real \<Rightarrow> real option" where
  \<comment> \<open>nan on a negative argument\<close>
  "np_sqrt a = (if a < 0 then None else Some (sqrt a))"

definition np_mean :: "real list \<Rightarrow> real option" where
  \<comment> \<open>nan on the empty array\<close>
  "np_mean xs = np_div (sum_list xs) (real (length xs))"

definition np_var :: "real list \<Rightarrow> real option" where
  \<comment> \<open>\<open>np.var\<close> with its default \<open>ddof=0\<close>: the mean of the squared deviations. Over the
      reals it is exactly 0 on a constant array; in doubles the rounded mean can leave a tiny
      positive value there\<close>
  "np_var xs = do {
     m \<leftarrow> np_mean xs;
     np_mean (map (\<lambda>x. (x - m)\<^sup>2) xs)
   }"

definition np_std :: "real list \<Rightarrow> real option" where
  \<comment> \<open>\<open>np.std\<close> with its default \<open>ddof=0\<close>\<close>
  "np_std xs = do { v \<leftarrow> np_var xs; np_sqrt v }"

definition np_cov01 :: "real list \<Rightarrow> real list \<Rightarrow> real option" where
  \<comment> \<open>\<open>np.cov(xs, ys)[0, 1]\<close> with its default \<open>ddof=1\<close>, for arrays of one length\<close>
  "np_cov01 xs ys = do {
     mx \<leftarrow> np_mean xs;
     my \<leftarrow> np_mean ys;
     np_div (sum_list (map2 (\<lambda>x y. (x - mx) * (y - my)) xs ys)) (real (length xs) - 1)
   }"

subsection \<open>Control variates (section 4.2 of the notes)\<close>

definition f :: "real \<Rightarrow> real" where
  "f x = exp (- (x\<^sup>2))"

definition g :: "real \<Rightarrow> real" where
  "g x = 1 - x\<^sup>2"

definition c_optimal_of :: "real option \<Rightarrow> real option \<Rightarrow> real option" where
  \<comment> \<open>the negation and the division of \<open>-np.cov(f_x, g_x)[0, 1] / np.var(g_x)\<close>, applied to
      the covariance \<open>cv\<close> and the variance \<open>v\<close> that numpy returned\<close>
  "c_optimal_of cv v = do {
     c \<leftarrow> cv;
     w \<leftarrow> v;
     np_div (- c) w
   }"

definition c_optimal :: "real list \<Rightarrow> real list \<Rightarrow> real option" where
  \<comment> \<open>\<open>-np.cov(f_x, g_x)[0, 1] / np.var(g_x)\<close>\<close>
  "c_optimal f_x g_x = c_optimal_of (np_cov01 f_x g_x) (np_var g_x)"

definition adjusted_estimate :: "real \<Rightarrow> real list \<Rightarrow> real list \<Rightarrow> real option" where
  \<comment> \<open>\<open>np.mean(f_x + c * (g_x - np.mean(g_x)))\<close> for a finite coefficient \<open>c\<close>\<close>
  "adjusted_estimate c f_x g_x = do {
     m \<leftarrow> np_mean g_x;
     np_mean (map2 (\<lambda>fi gi. fi + c * (gi - m)) f_x g_x)
   }"

definition I_hat_of :: "real option \<Rightarrow> real list \<Rightarrow> real list \<Rightarrow> real option" where
  \<comment> \<open>\<open>np.mean(f_x + c_optimal * (g_x - np.mean(g_x)))\<close> for the coefficient computed before,
      finite or not\<close>
  "I_hat_of c_opt f_x g_x = do {
     c \<leftarrow> c_opt;
     adjusted_estimate c f_x g_x
   }"

definition I_hat_monte_carlo :: "real list \<Rightarrow> real list \<Rightarrow> real option" where
  "I_hat_monte_carlo f_x g_x = I_hat_of (c_optimal f_x g_x) f_x g_x"

definition control_variates :: "nat \<Rightarrow> rng \<Rightarrow> real option \<times> rng" where
  \<comment> \<open>steps 1 and 2 of the script, with the sample count \<open>n\<close> as a parameter\<close>
  "control_variates n s =
     (let (x, s1) = np_random_uniform 0 1 n s;
          f_x = map f x;
          g_x = map g x
      in (I_hat_monte_carlo f_x g_x, s1))"

subsection \<open>Antithetic estimators of \<open>\<pi>\<close>\<close>

definition np_add :: "real list \<Rightarrow> real list \<Rightarrow> py_error + real list" where
  \<comment> \<open>elementwise sum of one-dimensional arrays; an array of length 1 is broadcast,
      any other mismatch of lengths raises ValueError\<close>
  "np_add xs ys =
     (if length xs = length ys then Inr (map2 (+) xs ys)
      else if length xs = 1 then Inr (map (\<lambda>y. hd xs + y) ys)
      else if length ys = 1 then Inr (map (\<lambda>x. x + hd ys) xs)
      else Inl ValueError)"

definition monte_carlo_pi_antithetic_x :: "nat \<Rightarrow> rng \<Rightarrow> real list \<times> rng" where
  \<comment> \<open>the sample set \<open>x\<close> built by the first three lines of \<open>monte_carlo_pi_antithetic\<close>\<close>
  "monte_carlo_pi_antithetic_x n s =
     (let (u, s1) = np_random_random (n div 2) s;
          v = map (\<lambda>ui. 1 - ui) u;
          x = u @ v
      in (x, s1))"

definition monte_carlo_pi_antithetic :: "nat \<Rightarrow> rng \<Rightarrow> (py_error + real option) \<times> rng" where
  "monte_carlo_pi_antithetic n s =
     (let (x, s1) = monte_carlo_pi_antithetic_x n s;
          (y, s2) = np_random_random n s1
      in (case np_add (map (\<lambda>xi. xi\<^sup>2) x) (map (\<lambda>yi. yi\<^sup>2) y) of
            Inl e \<Rightarrow> (Inl e, s2)
          | Inr r \<Rightarrow>
              (let inside_circle = map (\<lambda>ri. ri \<le> 1) r
               in (Inr (map_option (\<lambda>q. q * 4)
                          (np_div (sum_list (map of_bool inside_circle)) (real n))), s2))))"

definition estimate_pi_antithetic :: "nat \<Rightarrow> rng \<Rightarrow> real option \<times> rng" where
  "estimate_pi_antithetic n_samples s =
     (let half_samples = n_samples div 2;
          (x, s1) = np_random_rand half_samples s;
          (y, s2) = np_random_rand half_samples s1;
          x_antithetic = map (\<lambda>xi. 1 - xi) x;
          y_antithetic = map (\<lambda>yi. 1 - yi) y;
          inside_circle = map2 (\<lambda>xi yi. xi\<^sup>2 + yi\<^sup>2 \<le> 1) x y
                        @ map2 (\<lambda>xi yi. xi\<^sup>2 + yi\<^sup>2 \<le> 1) x_antithetic y_antithetic
      in (map_option (\<lambda>m. 4 * m) (np_mean (map of_bool inside_circle)), s2))"

definition antithetic_variates :: "nat \<Rightarrow> rng \<Rightarrow> real list \<times> rng" where
  "antithetic_variates size' s =
     (let (normal_sample, s1) = np_random_normal size' s;
          antithetic_sample = map uminus normal_sample;
          combined_samples = normal_sample @ antithetic_sample
      in (combined_samples, s1))"

subsection \<open>Moment matching\<close>

definition adjusted_samples :: "real \<Rightarrow> real \<Rightarrow> real list \<Rightarrow> real list option" where
  \<comment> \<open>\<open>target_mean + target_std * (samples - np.mean(samples)) / np.std(samples)\<close>\<close>
  "adjusted_samples target_mean target_std samples = do {
     m \<leftarrow> np_mean samples;
     sd \<leftarrow> np_std samples;
     if sd = 0 then None
     else Some (map (\<lambda>x. target_mean + target_std * (x - m) / sd) samples)
   }"

definition generate_normal_samples :: "real \<Rightarrow> real \<Rightarrow> nat \<Rightarrow> rng \<Rightarrow> real list option \<times> rng" where
  "generate_normal_samples target_mean target_std size' s =
     (let (samples, s1) = np_random_normal size' s
      in (adjusted_samples target_mean target_std samples, s1))"

subsection \<open>Moment matching in double precision\<close>

text \<open>
  A finite double is a real number with a 53-bit significand, and an arithmetic operation
  of numpy returns the exact result rounded to the nearest double, ties to even. \<open>fl64\<close>
  is this rounding for results in the normal range (\<open>2\<^sup>-\<^sup>1\<^sup>0\<^sup>2\<^sup>2 \<le> \<bar>x\<bar> < 2\<^sup>1\<^sup>0\<^sup>2\<^sup>4\<close>), which is
  all that is evaluated below. The functions with the suffix \<open>_fl\<close> are the normalizer
  with every operation rounded, in the order in which numpy performs them: \<open>np.mean\<close> adds
  the (fewer than eight) elements from left to right and divides, \<open>np.std\<close> subtracts the
  mean, squares, takes the mean and the square root.
\<close>

definition round_to_even :: "real \<Rightarrow> int" where
  "round_to_even x =
     (let n = \<lfloor>x\<rfloor>; d = x - of_int n
      in if d < 1 / 2 then n else if 1 / 2 < d then n + 1 else if even n then n else n + 1)"

definition pow2 :: "int \<Rightarrow> real" where
  "pow2 e = (if 0 \<le> e then 2 ^ nat e else 1 / 2 ^ nat (- e))"

definition fl64 :: "real \<Rightarrow> real" where
  "fl64 x =
     (if x = 0 then 0
      else (let e = \<lfloor>log 2 \<bar>x\<bar>\<rfloor>; ulp = pow2 (e - 52)
            in of_int (round_to_even (x / ulp)) * ulp))"

definition fl_sum :: "real list \<Rightarrow> real" where
  "fl_sum xs = foldl (\<lambda>acc x. fl64 (acc + x)) 0 xs"

definition fl_mean :: "real list \<Rightarrow> real option" where
  "fl_mean xs = map_option fl64 (np_div (fl_sum xs) (real (length xs)))"

definition fl_var :: "real list \<Rightarrow> real option" where
  "fl_var xs = do {
     m \<leftarrow> fl_mean xs;
     fl_mean (map (\<lambda>x. fl64 (fl64 (x - m) * fl64 (x - m))) xs)
   }"

definition fl_std :: "real list \<Rightarrow> real option" where
  "fl_std xs = do { v \<leftarrow> fl_var xs; map_option fl64 (np_sqrt v) }"

definition adjusted_samples_fl :: "real \<Rightarrow> real \<Rightarrow> real list \<Rightarrow> real list option" where
  \<comment> \<open>\<open>target_mean + target_std * (samples - np.mean(samples)) / np.std(samples)\<close>: the
      difference, the product, the quotient and the sum, each rounded\<close>
  "adjusted_samples_fl target_mean target_std samples = do {
     m \<leftarrow> fl_mean samples;
     sd \<leftarrow> fl_std samples;
     if sd = 0 then None
     else Some (map (\<lambda>x. fl64 (target_mean + fl64 (fl64 (target_std * fl64 (x - m)) / sd)))
                  samples)
   }"

definition generate_normal_samples_fl ::
    "real \<Rightarrow> real \<Rightarrow> nat \<Rightarrow> rng \<Rightarrow> real list option \<times> rng" where
  "generate_normal_samples_fl target_mean target_std size' s =
     (let (samples, s1) = np_random_normal size' s
      in (adjusted_samples_fl target_mean target_std samples, s1))"

text \<open>
  The tolerance of the specification: the standard deviation of \<open>out\<close>, computed in
  doubles, is within \<open>10\<^sup>-\<^sup>9\<close>, relative, of the target.
\<close>

definition std_within_tolerance :: "real list \<Rightarrow> real \<Rightarrow> bool" where
  "std_within_tolerance out target_std =
     (case fl_std out of
        None \<Rightarrow> False
      | Some sd \<Rightarrow> \<bar>sd - target_std\<bar> \<le> 1 / 10 ^ 9 * \<bar>target_std\<bar>)"

subsection \<open>Terminal values of geometric Brownian motion\<close>

definition monte_carlo_european_call_Z :: "nat \<Rightarrow> rng \<Rightarrow> real list \<times> rng" where
  \<comment> \<open>the shocks \<open>Z\<close> of \<open>monte_carlo_european_call\<close>\<close>
  "monte_carlo_european_call_Z num_simulations s =
     (let (U, s1) = np_random_normal (num_simulations div 2) s;
          V = map uminus U;
          Z = U @ V
      in (Z, s1))"

definition monte_carlo_european_call_ST ::
    "real \<Rightarrow> real \<Rightarrow> real \<Rightarrow> real \<Rightarrow> real list \<Rightarrow> real list option" where
  \<comment> \<open>the terminal prices \<open>ST\<close> of \<open>monte_carlo_european_call\<close>\<close>
  "monte_carlo_european_call_ST S0 T r sigma Z =
     (let dt = T
      in do {
        rt \<leftarrow> np_sqrt dt;
        Some (map (\<lambda>z. S0 * exp ((r - 0.5 * sigma\<^sup>2) * dt + sigma * rt * z)) Z)
      })"

definition monte_carlo_european_call ::
    "real \<Rightarrow> real \<Rightarrow> real \<Rightarrow> real \<Rightarrow> real \<Rightarrow> nat \<Rightarrow> rng \<Rightarrow> (real option \<times> real option) \<times> rng" where
  "monte_carlo_european_call S0 K T r sigma num_simulations s =
     (let (Z, s1) = monte_carlo_european_call_Z num_simulations s;
          discounted_payoff = do {
            ST \<leftarrow> monte_carlo_european_call_ST S0 T r sigma Z;
            let payoff = map (\<lambda>st. max (st - K) 0) ST;
            Some (map (\<lambda>p. exp (- r * T) * p) payoff)
          }
      in ((discounted_payoff \<bind> np_mean,
           do {
             dp \<leftarrow> discounted_payoff;
             sd \<leftarrow> np_std dp;
             rt \<leftarrow> np_sqrt (real num_simulations);
             np_div sd rt
           }), s1))"

definition monte_carlo_var_ST :: "real \<Rightarrow> real \<Rightarrow> real \<Rightarrow> real \<Rightarrow> real list \<Rightarrow> real list option" where
  \<comment> \<open>the terminal values \<open>ST\<close> of \<open>monte_carlo_var\<close>\<close>
  "monte_carlo_var_ST initial_value mu sigma T Z =
     (let dt = T
      in do {
        rt \<leftarrow> np_sqrt dt;
        Some (map (\<lambda>z. initial_value * exp ((mu - 0.5 * sigma\<^sup>2) * dt + sigma * rt * z)) Z)
      })"

text \<open>
  \<open>np.percentile\<close> is an argument of the model of \<open>monte_carlo_var\<close>: it receives the
  losses (\<open>None\<close> when they are computed from a non-finite scalar) and the percentage.
\<close>

definition monte_carlo_var ::
    "(real list option \<Rightarrow> real \<Rightarrow> 'r) \<Rightarrow> real \<Rightarrow> real \<Rightarrow> real \<Rightarrow> real \<Rightarrow> real \<Rightarrow> nat \<Rightarrow> rng \<Rightarrow> 'r \<times> rng" where
  "monte_carlo_var percentile initial_value mu sigma T alpha num_simulations s =
     (let (Z, s1) = np_random_normal num_simulations s;
          ST = monte_carlo_var_ST initial_value mu sigma T Z;
          losses = map_option (map (\<lambda>st. initial_value - st)) ST;
          var_estimate = percentile losses (100 * (1 - alpha))
      in (var_estimate, s1))"

subsection \<open>Paths of geometric Brownian motion\<close>

definition np_linspace :: "real \<Rightarrow> real \<Rightarrow> nat \<Rightarrow> real list" where
  \<comment> \<open>\<open>num\<close> points from \<open>start\<close> to \<open>stop\<close>, both included\<close>
  "np_linspace start stop num =
     (if num = 1 then [start]
      else map (\<lambda>k. start + real k * ((stop - start) / real (num - 1))) [0..<num])"

fun cumsum_from :: "real \<Rightarrow> real list \<Rightarrow> real list" where
  "cumsum_from acc [] = []"
| "cumsum_from acc (x # xs) = (acc + x) # cumsum_from (acc + x) xs"

definition np_cumsum :: "real list \<Rightarrow> real list" where
  "np_cumsum xs = cumsum_from 0 xs"

definition simulate_gbm ::
    "real \<Rightarrow> real \<Rightarrow> real \<Rightarrow> real \<Rightarrow> nat \<Rightarrow> rng \<Rightarrow> (py_error + real list \<times> real list option) \<times> rng" where
  \<comment> \<open>\<open>T / N\<close> divides Python numbers, so \<open>N = 0\<close> raises before anything is drawn\<close>
  "simulate_gbm S0 mu sigma T N s =
     (if N = 0 then (Inl ZeroDivisionError, s)
      else
        (let dt = T / real N;
             t = np_linspace 0 T N;
             (Z, s1) = np_random_randn N s;
             S = do {
               rt \<leftarrow> np_sqrt dt;
               let W = np_cumsum (map (\<lambda>z. z * rt) Z);
               Some (map2 (\<lambda>ti wi. S0 * exp ((mu - 0.5 * sigma\<^sup>2) * ti + sigma * wi)) t W)
             }
         in (Inr (t, S), s1)))"

subsection \<open>Definitions used to compare and to evaluate\<close>

text \<open>
  The coefficient as the specification words it: covariance and variance both with the
  \<open>n - 1\<close> denominator.
\<close>

definition var_unbiased :: "real list \<Rightarrow> real option" where
  "var_unbiased xs = do {
     m \<leftarrow> np_mean xs;
     np_div (sum_list (map (\<lambda>x. (x - m)\<^sup>2) xs)) (real (length xs) - 1)
   }"

definition c_star_unbiased :: "real list \<Rightarrow> real list \<Rightarrow> real option" where
  "c_star_unbiased f_x g_x = do {
     cv \<leftarrow> np_cov01 f_x g_x;
     v \<leftarrow> var_unbiased g_x;
     np_div (- cv) v
   }"

text \<open>
  A generator state for evaluation: its next three variates are 0, every later one is
  99/100.
\<close>

definition example_rng :: rng where
  "example_rng k = (if k < 3 then 0 else 99 / 100)"

text \<open>A generator state whose variates are \<open>-1, 1, -1, 1, \<dots>\<close>.\<close>

definition alternating_rng :: rng where
  "alternating_rng k = (if even k then - 1 else 1)"

section \<open>Properties\<close>

subsection \<open>Auxiliary facts\<close>

lemma np_mean_Some:
  "xs \<noteq> [] \<Longrightarrow> np_mean xs = Some (sum_list xs / real (length xs))"
  by (simp add: np_mean_def np_div_def)

lemma sum_list_adjust:
  "length xs = length ys \<Longrightarrow>
   sum_list (map2 (\<lambda>a b. a + c * (b - m)) xs ys)
     = sum_list xs + c * (sum_list ys - real (length ys) * m)"
  by (induction xs ys rule: list_induct2) (simp_all add: algebra_simps)

lemma adjusted_estimate_eq_mean:
  assumes "length f_x = length g_x" and "1 \<le> length f_x"
  shows "adjusted_estimate c f_x g_x = np_mean f_x"
proof -
  from assms have ne: "g_x \<noteq> []" "f_x \<noteq> []" by auto
  let ?n = "real (length g_x)"
  let ?m = "sum_list g_x / ?n"
  have n0: "?n \<noteq> 0" using ne by simp
  have "sum_list (map2 (\<lambda>fi gi. fi + c * (gi - ?m)) f_x g_x) = sum_list f_x"
    using n0 by (simp add: sum_list_adjust [OF assms(1)])
  moreover have "length (map2 (\<lambda>fi gi. fi + c * (gi - ?m)) f_x g_x) = length f_x"
    using assms(1) by simp
  ultimately show ?thesis
    using ne assms(1) by (simp add: adjusted_estimate_def np_mean_def np_div_def)
qed

lemma c_optimal_example: "c_optimal [1, 2] [1, 3] = Some (- 1)"
  by (simp add: c_optimal_def c_optimal_of_def np_cov01_def np_var_def np_mean_def np_div_def power2_eq_square)

lemma monte_carlo_pi_antithetic_x_eq:
  "monte_carlo_pi_antithetic_x n s =
     (map s [0..<n div 2] @ map (\<lambda>k. 1 - s k) [0..<n div 2], (\<lambda>k. s (k + n div 2)))"
  by (simp add: monte_carlo_pi_antithetic_x_def np_random_random_def draw_def comp_def)

lemma monte_carlo_european_call_Z_eq:
  "monte_carlo_european_call_Z n s =
     (map s [0..<n div 2] @ map (\<lambda>k. - s k) [0..<n div 2], (\<lambda>k. s (k + n div 2)))"
  by (simp add: monte_carlo_european_call_Z_def np_random_normal_def draw_def comp_def)

lemma antithetic_variates_eq:
  "antithetic_variates m s =
     (map s [0..<m] @ map (\<lambda>k. - s k) [0..<m], (\<lambda>k. s (k + m)))"
  by (simp add: antithetic_variates_def np_random_normal_def draw_def comp_def)

lemma length_cumsum_from: "length (cumsum_from acc xs) = length xs"
  by (induction xs arbitrary: acc) simp_all

lemma nth_cumsum_from:
  "k < length xs \<Longrightarrow> cumsum_from acc xs ! k = acc + sum_list (take (Suc k) xs)"
proof (induction xs arbitrary: acc k)
  case Nil
  then show ?case by simp
next
  case (Cons x xs)
  show ?case
  proof (cases k)
    case 0
    then show ?thesis by simp
  next
    case (Suc j)
    with Cons.prems have "j < length xs" by simp
    from Cons.IH [OF this, of "acc + x"] Suc show ?thesis by simp
  qed
qed

lemma nth_np_cumsum_map:
  assumes "k < N"
  shows "np_cumsum (map h [0..<N]) ! k = (\<Sum>j\<le>k. h j)"
proof -
  have "take (Suc k) (map h [0..<N]) = map h [0..<Suc k]"
    using assms by (simp add: take_map min_def del: upt_Suc)
  moreover have "sum_list (map h [0..<Suc k]) = (\<Sum>j\<le>k. h j)"
    by (simp add: interv_sum_list_conv_sum_set_nat atLeast0LessThan lessThan_Suc_atMost
             del: upt_Suc)
  ultimately show ?thesis
    using assms by (simp add: np_cumsum_def nth_cumsum_from del: upt_Suc)
qed

lemma nth_np_linspace:
  "k < N \<Longrightarrow> np_linspace 0 T N ! k = (if N = 1 then 0 else real k * (T / real (N - 1)))"
  by (auto simp add: np_linspace_def)

lemma length_np_linspace: "length (np_linspace a b N) = N"
  by (simp add: np_linspace_def)

lemma simulate_gbm_eq:
  assumes "1 \<le> N" and "0 \<le> T"
  shows "simulate_gbm S0 mu sigma T N s =
     (Inr (np_linspace 0 T N,
           Some (map2 (\<lambda>ti wi. S0 * exp ((mu - 0.5 * sigma\<^sup>2) * ti + sigma * wi))
                   (np_linspace 0 T N)
                   (np_cumsum (map (\<lambda>j. s j * sqrt (T / real N)) [0..<N])))),
      (\<lambda>k. s (k + N)))"
proof -
  from assms have "\<not> T / real N < 0" by (simp add: not_less)
  with assms(1) show ?thesis
    by (simp add: simulate_gbm_def np_random_randn_def draw_def np_sqrt_def comp_def Let_def)
qed

lemma simulate_gbm_nth:
  assumes "1 \<le> N" and "0 \<le> T"
  shows "\<exists>t S. fst (simulate_gbm S0 mu sigma T N s) = Inr (t, Some S) \<and>
           length t = N \<and> length S = N \<and>
           (\<forall>k<N. t ! k = (if N = 1 then 0 else real k * (T / real (N - 1))) \<and>
                  S ! k = S0 * exp ((mu - 0.5 * sigma\<^sup>2) * t ! k
                                    + sigma * (\<Sum>j\<le>k. sqrt (T / real N) * s j)))"
proof -
  let ?t = "np_linspace 0 T N"
  let ?W = "np_cumsum (map (\<lambda>j. s j * sqrt (T / real N)) [0..<N])"
  let ?S = "map2 (\<lambda>ti wi. S0 * exp ((mu - 0.5 * sigma\<^sup>2) * ti + sigma * wi)) ?t ?W"
  have lW: "length ?W = N" by (simp add: np_cumsum_def length_cumsum_from)
  have lt: "length ?t = N" by (rule length_np_linspace)
  have W: "?W ! k = (\<Sum>j\<le>k. sqrt (T / real N) * s j)" if "k < N" for k
    using nth_np_cumsum_map [OF that, of "\<lambda>j. s j * sqrt (T / real N)"]
    by (simp add: mult.commute)
  have "fst (simulate_gbm S0 mu sigma T N s) = Inr (?t, Some ?S)"
    by (simp add: simulate_gbm_eq [OF assms])
  moreover have "length ?S = N" using lW lt by simp
  moreover have "\<forall>k<N. ?t ! k = (if N = 1 then 0 else real k * (T / real (N - 1))) \<and>
                  ?S ! k = S0 * exp ((mu - 0.5 * sigma\<^sup>2) * ?t ! k
                                    + sigma * (\<Sum>j\<le>k. sqrt (T / real N) * s j))"
    using lW lt W by (simp add: nth_np_linspace)
  ultimately show ?thesis using lt by blast
qed

lemma sum_list_affine:
  "sum_list (map (\<lambda>x. a + b * (x - m) / d) (xs :: real list))
     = real (length xs) * a + b * (sum_list xs - real (length xs) * m) / d"
  by (induction xs) (simp_all add: algebra_simps add_divide_distrib diff_divide_distrib)

lemma sum_list_scaled_squares:
  "sum_list (map (\<lambda>x. (b * (x - m) / d)\<^sup>2) (xs :: real list))
     = (b / d)\<^sup>2 * sum_list (map (\<lambda>x. (x - m)\<^sup>2) xs)"
proof -
  have "(\<lambda>x. (b * (x - m) / d)\<^sup>2) = (\<lambda>x. (b / d)\<^sup>2 * (x - m)\<^sup>2)"
  proof
    fix x
    have "b * (x - m) / d = (b / d) * (x - m)" by simp
    then show "(b * (x - m) / d)\<^sup>2 = (b / d)\<^sup>2 * (x - m)\<^sup>2"
      by (simp only: power_mult_distrib)
  qed
  then show ?thesis by (simp only: sum_list_const_mult)
qed

lemma np_std_SomeD:
  assumes "np_std xs = Some d"
  shows "xs \<noteq> [] \<and> 0 \<le> d \<and>
         d\<^sup>2 = sum_list (map (\<lambda>x. (x - sum_list xs / real (length xs))\<^sup>2) xs)
                 / real (length xs)"
proof -
  from assms have ne: "xs \<noteq> []"
    by (auto simp: np_std_def np_var_def np_mean_def np_div_def)
  let ?v = "sum_list (map (\<lambda>x. (x - sum_list xs / real (length xs))\<^sup>2) xs)
              / real (length xs)"
  have v: "np_var xs = Some ?v" using ne by (simp add: np_var_def np_mean_def np_div_def)
  have "0 \<le> ?v" by (intro divide_nonneg_nonneg sum_list_nonneg) auto
  with assms v have "d = sqrt ?v" by (simp add: np_std_def np_sqrt_def)
  with \<open>0 \<le> ?v\<close> ne show ?thesis by simp
qed

lemma adjusted_samples_moments:
  assumes "np_std samples = Some d" and "d \<noteq> 0"
  shows "\<exists>m out. np_mean samples = Some m \<and>
           adjusted_samples target_mean target_std samples = Some out \<and>
           out = map (\<lambda>x. target_mean + target_std * (x - m) / d) samples \<and>
           np_mean out = Some target_mean \<and> np_std out = Some \<bar>target_std\<bar>"
proof -
  from np_std_SomeD [OF assms(1)] have ne: "samples \<noteq> []" and d0: "0 \<le> d"
    and d2: "d\<^sup>2 = sum_list (map (\<lambda>x. (x - sum_list samples / real (length samples))\<^sup>2)
                            samples)
                  / real (length samples)"
    by simp_all
  let ?n = "real (length samples)"
  let ?m = "sum_list samples / ?n"
  let ?out = "map (\<lambda>x. target_mean + target_std * (x - ?m) / d) samples"
  have n0: "?n \<noteq> 0" using ne by simp
  have m: "np_mean samples = Some ?m" using ne by (rule np_mean_Some)
  have adj: "adjusted_samples target_mean target_std samples = Some ?out"
    using assms(1,2) m by (simp add: adjusted_samples_def)
  have s1: "sum_list ?out = ?n * target_mean"
    using n0 by (simp add: sum_list_affine)
  have mo: "np_mean ?out = Some target_mean"
    using ne n0 s1 by (simp add: np_mean_def np_div_def del: sum_list_affine)
  have "sum_list (map (\<lambda>y. (y - target_mean)\<^sup>2) ?out)
          = sum_list (map (\<lambda>x. (target_std * (x - ?m) / d)\<^sup>2) samples)"
    by (simp add: comp_def)
  also have "\<dots> = (target_std / d)\<^sup>2 * sum_list (map (\<lambda>x. (x - ?m)\<^sup>2) samples)"
    by (rule sum_list_scaled_squares)
  also have "\<dots> = (target_std / d)\<^sup>2 * (d\<^sup>2 * ?n)"
    using n0 by (simp add: d2)
  also have "\<dots> = target_std\<^sup>2 * ?n"
    using assms(2) by (simp add: power_divide)
  finally have s2: "sum_list (map (\<lambda>y. (y - target_mean)\<^sup>2) ?out) = target_std\<^sup>2 * ?n" .
  have vo: "np_var ?out = Some (target_std\<^sup>2)"
    unfolding np_var_def mo using ne n0 s2 by (simp add: np_mean_def np_div_def)
  have so: "np_std ?out = Some \<bar>target_std\<bar>"
    by (simp add: np_std_def vo np_sqrt_def)
  from m adj mo so show ?thesis by blast
qed

lemma np_std_example: "np_std [0, 99 / 100] = Some (99 / 200)"
proof -
  have "sqrt ((99 / 200)\<^sup>2) = (99 / 200 :: real)" by (simp only: real_sqrt_abs)
  moreover have "np_var [0, 99 / 100] = Some ((99 / 200)\<^sup>2)"
    by (simp add: np_var_def np_mean_def np_div_def power2_eq_square)
  ultimately show ?thesis by (simp add: np_std_def np_sqrt_def)
qed

lemma odd_half: "odd (n::nat) \<Longrightarrow> n div 2 + n div 2 = n - 1"
  by presburger

lemma snd_monte_carlo_pi_antithetic:
  "snd (monte_carlo_pi_antithetic n s) = (\<lambda>k. s (k + (n div 2 + n)))"
  by (simp add: monte_carlo_pi_antithetic_def monte_carlo_pi_antithetic_x_eq
        np_random_random_def draw_def add.assoc add.commute add.left_commute
      split: sum.splits)

text \<open>
  The coefficient of the script is the one with the \<open>n - 1\<close> denominator in both places,
  multiplied by \<open>n / (n - 1)\<close>.
\<close>

lemma c_optimal_vs_unbiased:
  assumes "length f_x = length g_x" and "c_optimal f_x g_x = Some c"
  shows "c_star_unbiased f_x g_x = Some (c * (real (length g_x) - 1) / real (length g_x))"
proof -
  let ?n = "real (length g_x)"
  let ?m = "sum_list g_x / ?n"
  let ?ss = "sum_list (map (\<lambda>x. (x - ?m)\<^sup>2) g_x)"
  from assms(2) obtain cv where cv: "np_cov01 f_x g_x = Some cv"
    by (cases "np_cov01 f_x g_x") (simp_all add: c_optimal_def c_optimal_of_def)
  from cv assms(1) have ne: "g_x \<noteq> []" and n1: "?n - 1 \<noteq> 0"
    by (auto simp: np_cov01_def np_mean_def np_div_def split: if_splits bind_splits)
  have v: "np_var g_x = Some (?ss / ?n)"
    using ne by (simp add: np_var_def np_mean_def np_div_def)
  from assms(2) cv v have v0: "?ss / ?n \<noteq> 0" and c: "c = - cv / (?ss / ?n)"
    by (auto simp: c_optimal_def c_optimal_of_def np_div_def split: if_splits)
  from v0 have ss0: "?ss \<noteq> 0" and n0: "?n \<noteq> 0" by auto
  have u: "var_unbiased g_x = Some (?ss / (?n - 1))"
    using ne n1 by (simp add: var_unbiased_def np_mean_def np_div_def)
  have "- cv / (?ss / (?n - 1)) = c * (?n - 1) / ?n"
    unfolding c using ss0 n0 n1 by (simp add: field_simps)
  then show ?thesis
    using ss0 n1 by (simp add: c_star_unbiased_def cv u np_div_def)
qed

text \<open>
  For an odd \<open>n \<ge> 3\<close>, \<open>monte_carlo_pi_antithetic\<close> adds an array of \<open>n - 1\<close> elements to
  one of \<open>n\<close>, which numpy refuses.
\<close>

lemma monte_carlo_pi_antithetic_odd:
  assumes "odd n" and "3 \<le> n"
  shows "fst (monte_carlo_pi_antithetic n s) = Inl ValueError"
proof -
  from assms have "n div 2 + n div 2 \<noteq> n" "n div 2 + n div 2 \<noteq> 1" "n \<noteq> 1"
    by presburger+
  then show ?thesis
    by (simp add: monte_carlo_pi_antithetic_def monte_carlo_pi_antithetic_x_eq
          np_random_random_def draw_def np_add_def)
qed

lemma pow2_powr: "pow2 e = 2 powr (of_int e)"
  by (simp add: pow2_def powr_real_of_int inverse_eq_divide)

text \<open>The rounding of a number whose binary exponent is known.\<close>

lemma fl64_eval:
  assumes "pow2 k \<le> \<bar>x\<bar>" and "\<bar>x\<bar> < pow2 (k + 1)"
  shows "fl64 x = of_int (round_to_even (x / pow2 (k - 52))) * pow2 (k - 52)"
proof -
  have "0 < pow2 k" by (simp add: pow2_powr)
  with assms(1) have pos: "0 < \<bar>x\<bar>" by linarith
  then have x0: "x \<noteq> 0" by simp
  from assms have "2 powr (of_int k) \<le> \<bar>x\<bar>" and "\<bar>x\<bar> < 2 powr (of_int k + 1)"
    by (simp_all add: pow2_powr)
  with pos have "\<lfloor>log 2 \<bar>x\<bar>\<rfloor> = k"
    by (simp add: floor_log_eq_powr_iff)
  with x0 show ?thesis by (simp add: fl64_def Let_def)
qed

lemma fl64_0: "fl64 0 = 0"
  by (simp add: fl64_def)

lemma fl64_1: "fl64 1 = 1"
  using fl64_eval [of 0 1] by (simp add: pow2_def round_to_even_def)

lemma fl64_m1: "fl64 (- 1) = - 1"
  using fl64_eval [of 0 "- 1"] by (simp add: pow2_def round_to_even_def)

lemma fl64_2: "fl64 2 = 2"
  using fl64_eval [of 1 2] by (simp add: pow2_def round_to_even_def)

lemma fl64_1e20: "fl64 100000000000000000000 = 100000000000000000000"
  using fl64_eval [of 66 100000000000000000000] by (simp add: pow2_def round_to_even_def)

lemma fl64_1e20_plus_1: "fl64 100000000000000000001 = 100000000000000000000"
  using fl64_eval [of 66 100000000000000000001] by (simp add: pow2_def round_to_even_def)

lemma fl64_1e20_minus_1: "fl64 99999999999999999999 = 100000000000000000000"
  using fl64_eval [of 66 99999999999999999999] by (simp add: pow2_def round_to_even_def)

lemma fl64_2e20: "fl64 200000000000000000000 = 200000000000000000000"
  using fl64_eval [of 67 200000000000000000000] by (simp add: pow2_def round_to_even_def)

lemmas fl64_values =
  fl64_0 fl64_1 fl64_m1 fl64_2 fl64_1e20 fl64_1e20_plus_1 fl64_1e20_minus_1 fl64_2e20

lemma alternating_draws: "fst (np_random_normal 2 alternating_rng) = [- 1, 1]"
  by (simp add: np_random_normal_def draw_def alternating_rng_def numeral_2_eq_2)

lemma fl_mean_alternating: "fl_mean [- 1, 1] = Some 0"
  by (simp add: fl_mean_def fl_sum_def np_div_def fl64_values)

lemma fl_std_alternating: "fl_std [- 1, 1] = Some 1"
  by (simp add: fl_std_def fl_var_def fl_mean_alternating fl_mean_def fl_sum_def np_div_def
        np_sqrt_def fl64_values)

lemma adjusted_samples_fl_absorbed:
  "adjusted_samples_fl (10 ^ 20) 1 [- 1, 1] = Some [10 ^ 20, 10 ^ 20]"
  by (simp add: adjusted_samples_fl_def fl_mean_alternating fl_std_alternating fl64_values)

lemma fl_mean_absorbed: "fl_mean [10 ^ 20, 10 ^ 20] = Some (10 ^ 20)"
  by (simp add: fl_mean_def fl_sum_def np_div_def fl64_values)

lemma fl_std_absorbed: "fl_std [10 ^ 20, 10 ^ 20] = Some 0"
  by (simp add: fl_std_def fl_var_def fl_mean_absorbed)
     (simp add: fl_mean_def fl_sum_def np_div_def np_sqrt_def fl64_values)

subsection \<open>Antithetic sample sets\<close>

text \<open>
  C1. In an antithetic sample set of even size \<open>n\<close>, the elements at the indices \<open>i\<close> and
  \<open>i + n/2\<close>, for \<open>i < n/2\<close>, add up to 1 when the draws are uniform (the set \<open>x\<close> of
  \<open>monte_carlo_pi_antithetic\<close>) and to 0 when they are normal (the shocks \<open>Z\<close> of
  \<open>monte_carlo_european_call\<close>, and the result of \<open>antithetic_variates\<close> called with the
  size \<open>n/2\<close>); each of these sets has \<open>n\<close> elements.
\<close>

theorem antithetic_pairs:
  assumes "even n" and "i < n div 2"
  shows "(let x = fst (monte_carlo_pi_antithetic_x n s)
          in length x = n \<and> x ! i + x ! (i + n div 2) = 1) \<and>
         (let Z = fst (monte_carlo_european_call_Z n s)
          in length Z = n \<and> Z ! i + Z ! (i + n div 2) = 0) \<and>
         (let c = fst (antithetic_variates (n div 2) s)
          in length c = n \<and> c ! i + c ! (i + n div 2) = 0)"
proof -
  from assms(1) have n2: "n div 2 + n div 2 = n" by presburger
  show ?thesis
    using assms(2) n2
    by (simp add: monte_carlo_pi_antithetic_x_eq monte_carlo_european_call_Z_eq
          antithetic_variates_eq nth_append)
qed

theorem antithetic_pairs_witness:
  "(let x = fst (monte_carlo_pi_antithetic_x 4 example_rng)
    in length x = 4 \<and> x ! 1 + x ! 3 = 1) \<and>
   (let Z = fst (monte_carlo_european_call_Z 4 example_rng)
    in length Z = 4 \<and> Z ! 1 + Z ! 3 = 0) \<and>
   (let c = fst (antithetic_variates 2 example_rng)
    in length c = 4 \<and> c ! 1 + c ! 3 = 0)"
  using antithetic_pairs [of 4 1 example_rng] by (simp add: numeral_3_eq_3)

subsection \<open>Control variates\<close>

text \<open>
  C2. For sample vectors \<open>f_x\<close> and \<open>g_x\<close> of one length \<open>n \<ge> 1\<close> and every coefficient
  \<open>c\<close>, the adjusted estimate \<open>mean(f_i + c * (g_i - mean(g)))\<close> is the mean of \<open>f_x\<close>;
  hence, whenever the coefficient computed by the script is finite, the control-variate
  estimate is the plain Monte Carlo mean of \<open>f_x\<close>.
\<close>

theorem control_variate_mean_unchanged:
  assumes "length f_x = length g_x" and "1 \<le> length f_x"
  shows "adjusted_estimate c f_x g_x = np_mean f_x \<and>
         (c_optimal f_x g_x = Some c \<longrightarrow> I_hat_monte_carlo f_x g_x = np_mean f_x)"
  using adjusted_estimate_eq_mean [OF assms] by (simp add: I_hat_monte_carlo_def I_hat_of_def)

theorem control_variate_mean_unchanged_witness:
  "adjusted_estimate (- 1) [1, 2] [1, 3] = Some (3 / 2) \<and>
   I_hat_monte_carlo [1, 2] [1, 3] = Some (3 / 2)"
  using control_variate_mean_unchanged [of "[1, 2]" "[1, 3]" "- 1"] c_optimal_example
  by (simp add: np_mean_def np_div_def)

text \<open>
  C3. The claim is that the coefficient is \<open>- Cov(f,g) / Var(g)\<close> with the \<open>n - 1\<close>
  denominator in both. The script divides the covariance of \<open>np.cov\<close> (denominator
  \<open>n - 1\<close>) by the variance of \<open>np.var\<close> (denominator \<open>n\<close>). For the draws \<open>x = [0, 1/2]\<close>
  it computes \<open>- 8 * (1 - exp (- 1/4))\<close>, twice the coefficient of the claim.
\<close>

theorem c_optimal_mixed_denominators:
  "c_optimal (map f [0, 1 / 2]) (map g [0, 1 / 2]) = Some (- 8 * (1 - exp (- (1 / 4)))) \<and>
   c_star_unbiased (map f [0, 1 / 2]) (map g [0, 1 / 2]) = Some (- 4 * (1 - exp (- (1 / 4))))"
  by (simp add: c_optimal_def c_optimal_of_def c_star_unbiased_def var_unbiased_def np_cov01_def np_var_def
        np_mean_def np_div_def f_def g_def power2_eq_square field_simps)

text \<open>
  C4, as the claim states it, fails: for the draws \<open>x = [1/2, 1/2]\<close> the control variate
  \<open>g_x\<close> is constant and the estimate is not finite, while the plain mean of \<open>f_x\<close> is
  \<open>exp (- 1/4)\<close>.
\<close>

theorem constant_control_no_fallback:
  "I_hat_monte_carlo (map f [1 / 2, 1 / 2]) (map g [1 / 2, 1 / 2]) = None \<and>
   np_mean (map f [1 / 2, 1 / 2]) = Some (exp (- (1 / 4)))"
  by (simp add: I_hat_monte_carlo_def I_hat_of_def c_optimal_def c_optimal_of_def np_cov01_def np_var_def np_mean_def
        np_div_def f_def g_def power2_eq_square)

text \<open>
  C4, amended. When the variance that \<open>np.var(g_x)\<close> returns is exactly zero (as it is for
  the draws \<open>x = [1/2, 1/2]\<close>), the script does not raise, and it has neither a fallback
  nor a flag: whatever covariance \<open>np.cov\<close> returned, the division by zero leaves the
  coefficient not finite, and with it the estimate, for every \<open>f_x\<close> and \<open>g_x\<close>.
\<close>

theorem zero_variance_not_finite:
  "v = Some 0 \<Longrightarrow>
   c_optimal_of cv v = None \<and> I_hat_of (c_optimal_of cv v) f_x g_x = None"
  by (cases cv) (simp_all add: c_optimal_of_def I_hat_of_def np_div_def)

theorem zero_variance_not_finite_witness:
  "np_var (map g [1 / 2, 1 / 2]) = Some 0 \<and>
   c_optimal (map f [1 / 2, 1 / 2]) (map g [1 / 2, 1 / 2]) = None \<and>
   I_hat_of (c_optimal (map f [1 / 2, 1 / 2]) (map g [1 / 2, 1 / 2]))
     (map f [1 / 2, 1 / 2]) (map g [1 / 2, 1 / 2]) = None"
proof -
  have v: "np_var (map g [1 / 2, 1 / 2]) = Some 0"
    by (simp add: np_var_def np_mean_def np_div_def g_def)
  note z = zero_variance_not_finite
             [OF v, of "np_cov01 (map f [1 / 2, 1 / 2]) (map g [1 / 2, 1 / 2])"
                "map f [1 / 2, 1 / 2]" "map g [1 / 2, 1 / 2]"]
  from v z [THEN conjunct1] z [THEN conjunct2] show ?thesis
    unfolding c_optimal_def by (intro conjI)
qed

subsection \<open>Geometric Brownian motion\<close>

text \<open>
  C7. For a horizon \<open>T \<ge> 0\<close> (the square root of a negative one is not a number) and
  every shock \<open>Z ! i\<close>, the terminal price computed by \<open>monte_carlo_european_call\<close> (with
  the drift \<open>r\<close>) and by \<open>monte_carlo_var\<close> is
  \<open>S0 * exp ((mu - 0.5 * sigma\<^sup>2) * T + sigma * sqrt T * Z ! i)\<close>; the call price is the
  mean of the discounted payoffs of these prices, and the value at risk is the percentile
  of the losses against them.
\<close>

theorem terminal_price_formula:
  assumes "0 \<le> T" and "i < length Z"
  shows "(\<exists>ST. monte_carlo_european_call_ST S0 T r sigma Z = Some ST \<and>
            length ST = length Z \<and>
            ST ! i = S0 * exp ((r - 0.5 * sigma\<^sup>2) * T + sigma * sqrt T * Z ! i)) \<and>
         (\<exists>ST. monte_carlo_var_ST initial_value mu sigma T Z = Some ST \<and>
            length ST = length Z \<and>
            ST ! i = initial_value * exp ((mu - 0.5 * sigma\<^sup>2) * T + sigma * sqrt T * Z ! i)) \<and>
         fst (fst (monte_carlo_european_call S0 K T r sigma n s))
           = np_mean (map (\<lambda>z. exp (- r * T)
                            * max (S0 * exp ((r - 0.5 * sigma\<^sup>2) * T + sigma * sqrt T * z) - K) 0)
                       (fst (monte_carlo_european_call_Z n s))) \<and>
         fst (monte_carlo_var percentile initial_value mu sigma T alpha n s)
           = percentile
               (Some (map (\<lambda>z. initial_value
                            - initial_value * exp ((mu - 0.5 * sigma\<^sup>2) * T + sigma * sqrt T * z))
                        (fst (np_random_normal n s))))
               (100 * (1 - alpha))"
proof -
  have 1: "fst (fst (monte_carlo_european_call S0 K T r sigma n s))
           = np_mean (map (\<lambda>z. exp (- r * T)
                            * max (S0 * exp ((r - 0.5 * sigma\<^sup>2) * T + sigma * sqrt T * z) - K) 0)
                       (fst (monte_carlo_european_call_Z n s)))"
    using assms(1)
    by (simp add: monte_carlo_european_call_def monte_carlo_european_call_ST_def np_sqrt_def
          split_beta Let_def comp_def)
  have 2: "fst (monte_carlo_var percentile initial_value mu sigma T alpha n s)
           = percentile
               (Some (map (\<lambda>z. initial_value
                            - initial_value * exp ((mu - 0.5 * sigma\<^sup>2) * T + sigma * sqrt T * z))
                        (fst (np_random_normal n s))))
               (100 * (1 - alpha))"
    using assms(1)
    by (simp add: monte_carlo_var_def monte_carlo_var_ST_def np_sqrt_def split_beta Let_def
          comp_def)
  from assms 1 2 show ?thesis
    by (simp add: monte_carlo_european_call_ST_def monte_carlo_var_ST_def np_sqrt_def)
qed

theorem terminal_price_formula_witness:
  "(\<exists>ST. monte_carlo_european_call_ST 100 1 (1 / 20) (1 / 5) [0, 1] = Some ST \<and>
      length ST = 2 \<and>
      ST ! 1 = 100 * exp ((1 / 20 - 0.5 * (1 / 5)\<^sup>2) * 1 + 1 / 5 * sqrt 1 * 1)) \<and>
   (\<exists>ST. monte_carlo_var_ST 1000000 (7 / 100) (1 / 5) 1 [0, 1] = Some ST \<and>
      length ST = 2 \<and>
      ST ! 1 = 1000000 * exp ((7 / 100 - 0.5 * (1 / 5)\<^sup>2) * 1 + 1 / 5 * sqrt 1 * 1)) \<and>
   fst (fst (monte_carlo_european_call 100 100 1 (1 / 20) (1 / 5) 2 example_rng))
     = np_mean (map (\<lambda>z. exp (- (1 / 20) * 1)
                      * max (100 * exp ((1 / 20 - 0.5 * (1 / 5)\<^sup>2) * 1 + 1 / 5 * sqrt 1 * z)
                             - 100) 0)
                 (fst (monte_carlo_european_call_Z 2 example_rng))) \<and>
   fst (monte_carlo_var (\<lambda>losses q. losses) 1000000 (7 / 100) (1 / 5) 1 (19 / 20) 2 example_rng)
     = Some (map (\<lambda>z. 1000000
                   - 1000000 * exp ((7 / 100 - 0.5 * (1 / 5)\<^sup>2) * 1 + 1 / 5 * sqrt 1 * z))
               (fst (np_random_normal 2 example_rng)))"
  using terminal_price_formula
          [where T = 1 and i = 1 and Z = "[0, 1]" and ?S0.0 = 100 and r = "1 / 20"
             and sigma = "1 / 5" and initial_value = 1000000 and mu = "7 / 100" and K = 100
             and n = 2 and s = example_rng and percentile = "\<lambda>losses q. losses"
             and alpha = "19 / 20"]
  by (simp add: numeral_2_eq_2)

text \<open>
  C8. For \<open>N \<ge> 1\<close> steps, a horizon \<open>T > 0\<close> and the shocks \<open>s 0, \<dots>, s (N - 1)\<close> drawn from
  the generator, \<open>simulate_gbm\<close> returns a grid \<open>t\<close> of \<open>N\<close> equally spaced times from 0 to
  \<open>T\<close> and a path \<open>S\<close> of \<open>N\<close> prices; the price at the grid point \<open>k\<close> is
  \<open>S0 * exp ((mu - 0.5 * sigma\<^sup>2) * t ! k + sigma * W\<close>), where \<open>W\<close> is the sum of the
  increments \<open>sqrt dt * s j\<close> for \<open>j \<le> k\<close> and \<open>dt = T / N\<close>: the closed form on the running
  sum, not a product of one-step factors.
\<close>

theorem simulate_gbm_closed_form:
  assumes "1 \<le> N" and "0 < T"
  shows "\<exists>t S. fst (simulate_gbm S0 mu sigma T N s) = Inr (t, Some S) \<and>
           length t = N \<and> length S = N \<and>
           (\<forall>k<N. t ! k = (if N = 1 then 0 else real k * (T / real (N - 1))) \<and>
                  S ! k = S0 * exp ((mu - 0.5 * sigma\<^sup>2) * t ! k
                                    + sigma * (\<Sum>j\<le>k. sqrt (T / real N) * s j)))"
proof -
  from assms(2) have "0 \<le> T" by simp
  with assms(1) show ?thesis by (rule simulate_gbm_nth)
qed

theorem simulate_gbm_closed_form_witness:
  "\<exists>t S. fst (simulate_gbm 100 (1 / 20) (1 / 5) 1 2 example_rng) = Inr (t, Some S) \<and>
     length t = 2 \<and> length S = 2 \<and>
     (\<forall>k<2. t ! k = (if (2::nat) = 1 then 0 else real k * (1 / real (2 - 1 :: nat))) \<and>
            S ! k = 100 * exp ((1 / 20 - 0.5 * (1 / 5)\<^sup>2) * t ! k
                      + 1 / 5 * (\<Sum>j\<le>k. sqrt (1 / real (2::nat)) * example_rng j)))"
  using simulate_gbm_closed_form [of 2 1 100 "1 / 20" "1 / 5" example_rng] by simp

text \<open>
  C10. For \<open>sigma > 0\<close>, \<open>N \<ge> 1\<close> and \<open>T > 0\<close>, the first grid time of \<open>simulate_gbm\<close> is 0
  and the first price of the path is \<open>S0 * exp (sigma * sqrt (T / N) * s 0)\<close>, where
  \<open>s 0\<close> is the first shock: the first increment is already applied at time 0, and the
  path (of a nonzero initial price) does not start at \<open>S0\<close> when that shock is not 0.
\<close>

theorem simulate_gbm_first_price:
  assumes "0 < sigma" and "1 \<le> N" and "0 < T"
  shows "\<exists>t S. fst (simulate_gbm S0 mu sigma T N s) = Inr (t, Some S) \<and>
           t ! 0 = 0 \<and>
           S ! 0 = S0 * exp (sigma * sqrt (T / real N) * s 0) \<and>
           (S0 \<noteq> 0 \<and> s 0 \<noteq> 0 \<longrightarrow> S ! 0 \<noteq> S0)"
proof -
  from assms(2) have N0: "0 < N" by simp
  from assms(3) have "0 \<le> T" by simp
  from simulate_gbm_nth [OF assms(2) this, of S0 mu sigma s]
  obtain t S where r: "fst (simulate_gbm S0 mu sigma T N s) = Inr (t, Some S)"
    and k: "\<forall>k<N. t ! k = (if N = 1 then 0 else real k * (T / real (N - 1))) \<and>
                  S ! k = S0 * exp ((mu - 0.5 * sigma\<^sup>2) * t ! k
                                    + sigma * (\<Sum>j\<le>k. sqrt (T / real N) * s j))"
    by blast
  from k N0 have t0: "t ! 0 = 0" by simp
  from k N0 t0 have first: "S ! 0 = S0 * exp (sigma * sqrt (T / real N) * s 0)"
    by (simp add: mult.assoc)
  have "S ! 0 \<noteq> S0" if "S0 \<noteq> 0" and "s 0 \<noteq> 0"
  proof -
    from assms N0 have "sqrt (T / real N) \<noteq> 0" by simp
    with assms(1) that(2) have "sigma * sqrt (T / real N) * s 0 \<noteq> 0" by simp
    then have "exp (sigma * sqrt (T / real N) * s 0) \<noteq> 1" by simp
    with that(1) show ?thesis by (simp add: first)
  qed
  with r t0 first show ?thesis by blast
qed

theorem simulate_gbm_first_price_witness:
  "\<exists>t S. fst (simulate_gbm 100 (1 / 20) (1 / 5) 1 2 (\<lambda>k. example_rng (k + 3)))
             = Inr (t, Some S) \<and>
     t ! 0 = 0 \<and> S ! 0 = 100 * exp (1 / 5 * sqrt (1 / 2) * (99 / 100)) \<and> S ! 0 \<noteq> 100"
  using simulate_gbm_first_price [of "1 / 5" 2 1 100 "1 / 20" "\<lambda>k. example_rng (k + 3)"]
  by (simp add: example_rng_def)

subsection \<open>Moment matching\<close>

text \<open>
  C6, as the claim states it, fails in its floating-point clause: for the draws \<open>-1, 1\<close>
  (standard deviation 1) and the targets \<open>10\<^sup>2\<^sup>0\<close> and 1, the final addition in doubles
  absorbs the scaled deviations; both outputs are \<open>10\<^sup>2\<^sup>0\<close>, their mean is the target mean
  and their standard deviation is 0, not within \<open>10\<^sup>-\<^sup>9\<close> of the target 1.
\<close>

theorem tolerance_fails_in_doubles:
  "fl_std (fst (np_random_normal 2 alternating_rng)) = Some 1 \<and>
   fst (generate_normal_samples_fl (10 ^ 20) 1 2 alternating_rng) = Some [10 ^ 20, 10 ^ 20] \<and>
   fl_mean [10 ^ 20, 10 ^ 20] = Some (10 ^ 20) \<and>
   fl_std [10 ^ 20, 10 ^ 20] = Some 0 \<and>
   \<not> std_within_tolerance [10 ^ 20, 10 ^ 20] 1"
  using alternating_draws fl_std_alternating adjusted_samples_fl_absorbed fl_mean_absorbed
    fl_std_absorbed
  by (simp add: generate_normal_samples_fl_def std_within_tolerance_def split_beta)

text \<open>
  C6, amended. In real arithmetic: when the standard deviation \<open>d\<close> of the drawn sample is
  a nonzero number, \<open>generate_normal_samples\<close> returns the sample transformed by
  \<open>x \<mapsto> target_mean + target_std * (x - m) / d\<close>, with \<open>m\<close> the mean of the sample; the
  mean of the result is \<open>target_mean\<close> and its standard deviation is the absolute value of
  \<open>target_std\<close>, hence \<open>target_std\<close> itself for a target that is a standard deviation
  (not negative).
\<close>

theorem moment_matching_exact:
  assumes "np_std (fst (np_random_normal size' s)) = Some d" and "d \<noteq> 0"
  shows "\<exists>m out. np_mean (fst (np_random_normal size' s)) = Some m \<and>
           fst (generate_normal_samples target_mean target_std size' s) = Some out \<and>
           out = map (\<lambda>x. target_mean + target_std * (x - m) / d)
                   (fst (np_random_normal size' s)) \<and>
           np_mean out = Some target_mean \<and> np_std out = Some \<bar>target_std\<bar> \<and>
           (0 \<le> target_std \<longrightarrow> np_std out = Some target_std)"
proof -
  from adjusted_samples_moments [OF assms, of target_mean target_std]
  obtain m out where "np_mean (fst (np_random_normal size' s)) = Some m"
    and "adjusted_samples target_mean target_std (fst (np_random_normal size' s)) = Some out"
    and "out = map (\<lambda>x. target_mean + target_std * (x - m) / d)
                 (fst (np_random_normal size' s))"
    and "np_mean out = Some target_mean" and "np_std out = Some \<bar>target_std\<bar>"
    by blast
  then show ?thesis
    by (auto simp add: generate_normal_samples_def split_beta)
qed

theorem moment_matching_exact_witness:
  "\<exists>m out. np_mean [0, 99 / 100] = Some m \<and>
     fst (generate_normal_samples 5 2 2 (\<lambda>k. example_rng (k + 2))) = Some out \<and>
     out = map (\<lambda>x. 5 + 2 * (x - m) / (99 / 200)) [0, 99 / 100] \<and>
     np_mean out = Some 5 \<and> np_std out = Some 2"
proof -
  have d: "fst (np_random_normal 2 (\<lambda>k. example_rng (k + 2))) = [0, 99 / 100]"
    by (simp add: np_random_normal_def draw_def example_rng_def numeral_2_eq_2)
  from moment_matching_exact [of 2 "\<lambda>k. example_rng (k + 2)" "99 / 200" 5 2]
  show ?thesis unfolding d using np_std_example by simp
qed

subsection \<open>Odd sample counts\<close>

text \<open>
  C5, as the claim states it, fails: asked for 3 samples, \<open>monte_carlo_european_call\<close> and
  \<open>estimate_pi_antithetic\<close> return estimates and raise nothing.
\<close>

theorem odd_count_not_rejected:
  "fst (monte_carlo_european_call 100 100 1 (1 / 20) (1 / 5) 3 example_rng)
     = (Some (exp (- (1 / 20)) * (100 * exp (3 / 100) - 100)), Some 0) \<and>
   fst (estimate_pi_antithetic 3 example_rng) = Some 2"
proof -
  have Z: "monte_carlo_european_call_Z 3 example_rng = ([0, 0], (\<lambda>k. example_rng (k + 1)))"
    by (simp add: monte_carlo_european_call_Z_eq example_rng_def)
  have e: "max (100 * exp (3 / 100) - 100) (0::real) = 100 * exp (3 / 100) - 100"
    by (simp add: max_def)
  have ST: "monte_carlo_european_call_ST 100 1 (1 / 20) (1 / 5) [0, 0]
              = Some [100 * exp (3 / 100), 100 * exp (3 / 100)]"
    by (simp add: monte_carlo_european_call_ST_def np_sqrt_def power2_eq_square)
  have "fst (monte_carlo_european_call 100 100 1 (1 / 20) (1 / 5) 3 example_rng)
     = (Some (exp (- (1 / 20)) * (100 * exp (3 / 100) - 100)), Some 0)"
    by (simp add: monte_carlo_european_call_def Z ST e np_mean_def np_std_def np_var_def
          np_div_def np_sqrt_def)
  moreover have "fst (estimate_pi_antithetic 3 example_rng) = Some 2"
    by (simp add: estimate_pi_antithetic_def np_random_rand_def draw_def example_rng_def
          np_mean_def np_div_def Let_def)
  ultimately show ?thesis by simp
qed

text \<open>
  C5, amended. For an odd \<open>n\<close> nothing checks the parity. \<open>monte_carlo_european_call\<close>
  draws the \<open>n div 2\<close> base shocks \<open>s 0, \<dots>\<close>, builds the \<open>n - 1\<close> shocks \<open>Z\<close> from them and
  their negations, and (for \<open>T \<ge> 0\<close>) returns the mean of the \<open>n - 1\<close> discounted payoffs
  of \<open>Z\<close>, with their standard deviation divided by \<open>sqrt n\<close>. \<open>estimate_pi_antithetic\<close>
  draws \<open>n div 2\<close> values \<open>x\<close> and \<open>n div 2\<close> values \<open>y\<close> and returns four times the mean of
  the \<open>n - 1\<close> indicators of the points \<open>(x, y)\<close> and \<open>(1 - x, 1 - y)\<close>.
\<close>

theorem odd_count_truncated:
  assumes "odd n"
  shows "(let Z = map s [0..<n div 2] @ map (\<lambda>k. - s k) [0..<n div 2];
              dp = map (\<lambda>z. exp (- r * T)
                          * max (S0 * exp ((r - 0.5 * sigma\<^sup>2) * T + sigma * sqrt T * z) - K) 0) Z
          in length Z = n - 1 \<and> length dp = n - 1 \<and>
             monte_carlo_european_call_Z n s = (Z, (\<lambda>k. s (k + n div 2))) \<and>
             snd (monte_carlo_european_call S0 K T r sigma n s) = (\<lambda>k. s (k + n div 2)) \<and>
             (0 \<le> T \<longrightarrow>
                fst (monte_carlo_european_call S0 K T r sigma n s)
                  = (np_mean dp,
                     do { sd \<leftarrow> np_std dp; rt \<leftarrow> np_sqrt (real n); np_div sd rt }))) \<and>
         (let x = map s [0..<n div 2];
              y = map (\<lambda>k. s (k + n div 2)) [0..<n div 2];
              inside_circle =
                map2 (\<lambda>xi yi. xi\<^sup>2 + yi\<^sup>2 \<le> 1) x y
                @ map2 (\<lambda>xi yi. xi\<^sup>2 + yi\<^sup>2 \<le> 1) (map (\<lambda>xi. 1 - xi) x) (map (\<lambda>yi. 1 - yi) y)
          in length inside_circle = n - 1 \<and>
             estimate_pi_antithetic n s
               = (map_option (\<lambda>m. 4 * m) (np_mean (map of_bool inside_circle)),
                  (\<lambda>k. s (k + (n - 1)))))"
proof -
  note h = odd_half [OF assms]
  let ?Z = "map s [0..<n div 2] @ map (\<lambda>k. - s k) [0..<n div 2]"
  let ?dp = "map (\<lambda>z. exp (- r * T)
                   * max (S0 * exp ((r - 0.5 * sigma\<^sup>2) * T + sigma * sqrt T * z) - K) 0) ?Z"
  have 1: "length ?Z = n - 1" using h by simp
  have 2: "length ?dp = n - 1" using h by simp
  have 3: "monte_carlo_european_call_Z n s = (?Z, (\<lambda>k. s (k + n div 2)))"
    by (rule monte_carlo_european_call_Z_eq)
  have 4: "snd (monte_carlo_european_call S0 K T r sigma n s) = (\<lambda>k. s (k + n div 2))"
    by (simp add: monte_carlo_european_call_def 3)
  have 5: "fst (monte_carlo_european_call S0 K T r sigma n s)
             = (np_mean ?dp,
                do { sd \<leftarrow> np_std ?dp; rt \<leftarrow> np_sqrt (real n); np_div sd rt })"
    if "0 \<le> T"
    using that
    by (simp add: monte_carlo_european_call_def 3 monte_carlo_european_call_ST_def np_sqrt_def
          Let_def comp_def)
  let ?x = "map s [0..<n div 2]"
  let ?y = "map (\<lambda>k. s (k + n div 2)) [0..<n div 2]"
  let ?ins = "map2 (\<lambda>xi yi. xi\<^sup>2 + yi\<^sup>2 \<le> 1) ?x ?y
            @ map2 (\<lambda>xi yi. xi\<^sup>2 + yi\<^sup>2 \<le> 1) (map (\<lambda>xi. 1 - xi) ?x) (map (\<lambda>yi. 1 - yi) ?y)"
  have 6: "length ?ins = n - 1" using h by simp
  have 7: "estimate_pi_antithetic n s
             = (map_option (\<lambda>m. 4 * m) (np_mean (map of_bool ?ins)), (\<lambda>k. s (k + (n - 1))))"
    using h
    by (simp add: estimate_pi_antithetic_def np_random_rand_def draw_def Let_def add.assoc)
  from 1 2 3 4 5 6 7 show ?thesis by (simp only: Let_def) blast
qed

theorem odd_count_truncated_witness:
  "(let Z = map example_rng [0..<1] @ map (\<lambda>k. - example_rng k) [0..<1];
        dp = map (\<lambda>z. exp (- (1 / 20) * 1)
                    * max (100 * exp ((1 / 20 - 0.5 * (1 / 5)\<^sup>2) * 1 + 1 / 5 * sqrt 1 * z)
                           - 100) 0) Z
    in length Z = 2 \<and> length dp = 2 \<and>
       monte_carlo_european_call_Z 3 example_rng = (Z, (\<lambda>k. example_rng (k + 1))) \<and>
       snd (monte_carlo_european_call 100 100 1 (1 / 20) (1 / 5) 3 example_rng)
         = (\<lambda>k. example_rng (k + 1)) \<and>
       fst (monte_carlo_european_call 100 100 1 (1 / 20) (1 / 5) 3 example_rng)
         = (np_mean dp,
            do { sd \<leftarrow> np_std dp; rt \<leftarrow> np_sqrt (real (3::nat)); np_div sd rt })) \<and>
   (let x = map example_rng [0..<1];
        y = map (\<lambda>k. example_rng (k + 1)) [0..<1];
        inside_circle =
          map2 (\<lambda>xi yi. xi\<^sup>2 + yi\<^sup>2 \<le> 1) x y
          @ map2 (\<lambda>xi yi. xi\<^sup>2 + yi\<^sup>2 \<le> 1) (map (\<lambda>xi. 1 - xi) x) (map (\<lambda>yi. 1 - yi) y)
    in length inside_circle = 2 \<and>
       estimate_pi_antithetic 3 example_rng
         = (map_option (\<lambda>m. 4 * m) (np_mean (map of_bool inside_circle)),
            (\<lambda>k. example_rng (k + 2))))"
  using odd_count_truncated
          [where n = 3 and s = example_rng and T = 1 and r = "1 / 20" and ?S0.0 = 100
             and sigma = "1 / 5" and K = 100]
  by simp

subsection \<open>The generator\<close>

text \<open>
  C9, as the claim states it, fails: two calls of \<open>monte_carlo_pi_antithetic\<close> with the
  same argument, one after the other, return 4 and 2, and the first call leaves the
  process-wide generator in another state than it found it.
\<close>

theorem hidden_generator_counterexample:
  "fst (monte_carlo_pi_antithetic 2 example_rng) = Inr (Some 4) \<and>
   fst (monte_carlo_pi_antithetic 2 (snd (monte_carlo_pi_antithetic 2 example_rng)))
     = Inr (Some 2) \<and>
   snd (monte_carlo_pi_antithetic 2 example_rng) \<noteq> example_rng"
proof -
  have a: "monte_carlo_pi_antithetic 2 example_rng = (Inr (Some 4), (\<lambda>k. example_rng (k + 3)))"
    by (simp add: monte_carlo_pi_antithetic_def monte_carlo_pi_antithetic_x_eq
          np_random_random_def draw_def np_add_def np_div_def example_rng_def numeral_2_eq_2
          add.commute)
  have b: "fst (monte_carlo_pi_antithetic 2 (\<lambda>k. example_rng (k + 3))) = Inr (Some 2)"
    by (simp add: monte_carlo_pi_antithetic_def monte_carlo_pi_antithetic_x_eq
          np_random_random_def draw_def np_add_def np_div_def example_rng_def numeral_2_eq_2
          power2_eq_square)
  have "(\<lambda>k. example_rng (k + 3)) 0 \<noteq> example_rng 0"
    by (simp add: example_rng_def)
  then have c: "(\<lambda>k. example_rng (k + 3)) \<noteq> example_rng"
    by metis
  show ?thesis by (simp add: a b c)
qed

text \<open>
  C9, amended. \<open>monte_carlo_pi_antithetic\<close> and \<open>monte_carlo_var\<close> read and advance the
  process-wide generator, which is not among their arguments: a call leaves it advanced by
  the number of variates drawn (\<open>n div 2 + n\<close> and \<open>n\<close>), and the result is determined by
  the arguments together with these variates, so that two calls with the same arguments
  return the same result when the generator supplies them the same variates.
\<close>

theorem estimators_depend_on_hidden_state:
  "snd (monte_carlo_pi_antithetic n s) = (\<lambda>k. s (k + (n div 2 + n))) \<and>
   snd (monte_carlo_var percentile initial_value mu sigma T alpha n s) = (\<lambda>k. s (k + n)) \<and>
   ((\<forall>k < n div 2 + n. s k = s' k) \<longrightarrow>
      fst (monte_carlo_pi_antithetic n s) = fst (monte_carlo_pi_antithetic n s')) \<and>
   ((\<forall>k < n. s k = s' k) \<longrightarrow>
      fst (monte_carlo_var percentile initial_value mu sigma T alpha n s)
        = fst (monte_carlo_var percentile initial_value mu sigma T alpha n s'))"
proof -
  have 1: "snd (monte_carlo_var percentile initial_value mu sigma T alpha n s) = (\<lambda>k. s (k + n))"
    by (simp add: monte_carlo_var_def np_random_normal_def draw_def)
  have 2: "fst (monte_carlo_var percentile initial_value mu sigma T alpha n s)
        = fst (monte_carlo_var percentile initial_value mu sigma T alpha n s')"
    if h: "\<forall>k < n. s k = s' k"
  proof -
    from h have m: "map s [0..<n] = map s' [0..<n]" by simp
    show ?thesis
      by (simp add: monte_carlo_var_def np_random_normal_def draw_def m)
  qed
  have 3: "fst (monte_carlo_pi_antithetic n s) = fst (monte_carlo_pi_antithetic n s')"
    if h: "\<forall>k < n div 2 + n. s k = s' k"
  proof -
    define F where "F u y =
      (case np_add (map (\<lambda>xi. xi\<^sup>2) (u @ map (\<lambda>ui. 1 - ui) u)) (map (\<lambda>yi. yi\<^sup>2) y) of
         Inl e \<Rightarrow> Inl e
       | Inr r \<Rightarrow> Inr (map_option (\<lambda>q. q * 4)
                   (np_div (sum_list (map of_bool (map (\<lambda>ri. ri \<le> 1) r))) (real n))))"
      for u y :: "real list"
    have F: "fst (monte_carlo_pi_antithetic n t)
               = F (map t [0..<n div 2]) (map (\<lambda>k. t (k + n div 2)) [0..<n])" for t
      unfolding F_def monte_carlo_pi_antithetic_def monte_carlo_pi_antithetic_x_def
        np_random_random_def draw_def
      by (simp split: sum.splits)
    from h have a: "map s [0..<n div 2] = map s' [0..<n div 2]" by simp
    from h have c: "map (\<lambda>k. s (k + n div 2)) [0..<n] = map (\<lambda>k. s' (k + n div 2)) [0..<n]"
      by simp
    show ?thesis by (simp only: F a c)
  qed
  from 1 2 3 snd_monte_carlo_pi_antithetic show ?thesis by blast
qed

theorem estimators_depend_on_hidden_state_witness:
  "snd (monte_carlo_pi_antithetic 2 example_rng) = (\<lambda>k. example_rng (k + 3)) \<and>
   snd (monte_carlo_var (\<lambda>losses q. losses) 1000000 (7 / 100) (1 / 5) 1 (19 / 20) 2 example_rng)
     = (\<lambda>k. example_rng (k + 2)) \<and>
   fst (monte_carlo_pi_antithetic 2 example_rng)
     = fst (monte_carlo_pi_antithetic 2 (\<lambda>k. if k < 3 then 0 else 1 / 2)) \<and>
   fst (monte_carlo_var (\<lambda>losses q. losses) 1000000 (7 / 100) (1 / 5) 1 (19 / 20) 2 example_rng)
     = fst (monte_carlo_var (\<lambda>losses q. losses) 1000000 (7 / 100) (1 / 5) 1 (19 / 20) 2
              (\<lambda>k. if k < 3 then 0 else 1 / 2))"
  using estimators_depend_on_hidden_state
          [of 2 example_rng "\<lambda>losses q. losses" 1000000 "7 / 100" "1 / 5" 1 "19 / 20"
              "\<lambda>k. if k < 3 then 0 else 1 / 2"]
  by (simp add: example_rng_def)

end
